theory Spec2Isabelle
  imports Main
begin

section \<open>Data model of main.go\<close>

text \<open>
  Go strings and byte slices are sequences of bytes: \<open>string\<close>. A \<open>[]byte\<close> can also
  be the nil slice, which \<open>appendAOF\<close> tells apart from an empty one (\<open>value != nil\<close>):
  \<open>None\<close> is nil, \<open>Some s\<close> a slice holding the bytes \<open>s\<close>.

  A \<open>time.Time\<close> is the number of nanoseconds since Go's zero time (1 January of year 1,
  00:00 UTC), so that \<open>IsZero\<close> is equality with 0; a \<open>time.Duration\<close> is a number of
  nanoseconds. Every \<open>time.Now()\<close> of the source is an argument of the function that
  calls it. One clock is modelled: the monotonic and the wall reading of Go's clock are
  not told apart.
\<close>

type_synonym bytes = "string option"
type_synonym time = int
type_synonym duration = int

definition string_of_bytes :: "bytes \<Rightarrow> string" where
  "string_of_bytes b = (case b of None \<Rightarrow> [] | Some s \<Rightarrow> s)"

definition Millisecond :: duration where
  "Millisecond = 1000000"

definition IsZero :: "time \<Rightarrow> bool" where
  "IsZero t = (t = 0)"

definition After :: "time \<Rightarrow> time \<Rightarrow> bool" where
  "After t u = (u < t)"

definition Add :: "time \<Rightarrow> duration \<Rightarrow> time" where
  "Add t d = t + d"

text \<open>
  \<open>Time.UnixNano\<close>: Go computes \<open>unixSec * 1e9 + nsec\<close> in int64, where
  \<open>unixSec = sec - 62135596800\<close>; the arithmetic wraps around modulo \<open>2 ^ 64\<close>.
\<close>

definition wrap_int64 :: "int \<Rightarrow> int" where
  "wrap_int64 x = (x + 2 ^ 63) mod 2 ^ 64 - 2 ^ 63"

definition UnixNano :: "time \<Rightarrow> int" where
  "UnixNano t = wrap_int64 (t - 62135596800 * 1000000000)"

record entry =
  Value :: bytes
  ExpiresAt :: time

text \<open>
  One line of the append-only file: the JSON object \<open>rec\<close> that \<open>appendAOF\<close> marshals,
  with its keys \<open>cmd\<close>, \<open>key\<close>, and the optional \<open>value\<close> and \<open>ttl_ms\<close>.
  \<open>Unparsable s\<close> is a line of bytes \<open>s\<close> on which \<open>json.Unmarshal\<close> fails.
  \<open>appendAOF\<close> is the only writer of the file; JSON objects of another shape are not
  modelled.
\<close>

record aof_rec =
  rec_cmd :: string
  rec_key :: string
  rec_value :: "string option"
  rec_ttl_ms :: "int option"

datatype aof_line = Unparsable string | JsonLine aof_rec

text \<open>
  The \<open>DB\<close> struct: the map \<open>data\<close> and the contents of the file behind \<open>aof\<close>, as
  the list of lines written so far. The two mutexes serialise the methods; each method
  is modelled as one atomic step.
\<close>

record DB =
  data :: "string \<rightharpoonup> entry"
  aof :: "aof_line list"

definition empty_DB :: DB where
  "empty_DB = \<lparr>data = Map.empty, aof = []\<rparr>"

definition AOF_SYNC :: bool where
  "AOF_SYNC = True"

text \<open>
  What the file system answers to one \<open>appendAOF\<close>: the write and the sync succeed,
  the write fails (the line is taken not to reach the file), or the line is written and
  the sync fails. The string is \<open>err.Error()\<close>.
\<close>

datatype aof_io = IoOk | WriteErr string | SyncErr string

section \<open>The store\<close>

definition appendAOF ::
  "aof_io \<Rightarrow> string \<Rightarrow> string \<Rightarrow> bytes \<Rightarrow> duration \<Rightarrow> DB \<Rightarrow> string option \<times> DB" where
  "appendAOF io c k v ttl db =
     (let r = \<lparr>rec_cmd = c, rec_key = k,
                rec_value = (if v \<noteq> None then Some (string_of_bytes v) else None),
                rec_ttl_ms = (if ttl > 0 then Some (ttl div Millisecond) else None)\<rparr>
      in case io of
           WriteErr m \<Rightarrow> (Some m, db)
         | SyncErr m \<Rightarrow>
             (if AOF_SYNC then Some m else None, db\<lparr>aof := aof db @ [JsonLine r]\<rparr>)
         | IoOk \<Rightarrow> (None, db\<lparr>aof := aof db @ [JsonLine r]\<rparr>))"

definition Set ::
  "time \<Rightarrow> aof_io \<Rightarrow> string \<Rightarrow> bytes \<Rightarrow> duration \<Rightarrow> DB \<Rightarrow> string option \<times> DB" where
  "Set now io k v ttl db =
     (let ent = \<lparr>Value = v, ExpiresAt = (if ttl > 0 then Add now ttl else 0)\<rparr>
      in appendAOF io ''SET'' k v ttl (db\<lparr>data := (data db)(k \<mapsto> ent)\<rparr>))"

definition Get :: "time \<Rightarrow> string \<Rightarrow> DB \<Rightarrow> (bytes \<times> bool) \<times> DB" where
  "Get now k db =
     (case data db k of
        None \<Rightarrow> ((None, False), db)
      | Some e \<Rightarrow>
          if \<not> IsZero (ExpiresAt e) \<and> After now (ExpiresAt e) then ((None, False), db)
          else ((Value e, True), db))"

text \<open>
  The loop of \<open>Del\<close>. \<open>io i\<close> is the answer of the file system to the append made for
  the key at position \<open>i\<close>; the loop drops it (\<open>_ = db.appendAOF(...)\<close>).
\<close>

fun Del_loop :: "(nat \<Rightarrow> aof_io) \<Rightarrow> nat \<Rightarrow> string list \<Rightarrow> nat \<Rightarrow> DB \<Rightarrow> nat \<times> DB" where
  "Del_loop io i [] deleted db = (deleted, db)"
| "Del_loop io i (k # ks) deleted db =
     (if data db k \<noteq> None
      then Del_loop io (Suc i) ks (Suc deleted)
             (snd (appendAOF (io i) ''DEL'' k None 0 (db\<lparr>data := (data db)(k := None)\<rparr>)))
      else Del_loop io (Suc i) ks deleted db)"

definition Del :: "(nat \<Rightarrow> aof_io) \<Rightarrow> string list \<Rightarrow> DB \<Rightarrow> nat \<times> DB" where
  "Del io keys db = Del_loop io 0 keys 0 db"

text \<open>
  One tick of \<open>expiryWorker\<close>. \<open>ks\<close> is the order in which \<open>range db.data\<close> visits the
  keys of the map.
\<close>

fun expiry_scan :: "time \<Rightarrow> string list \<Rightarrow> (string \<rightharpoonup> entry) \<Rightarrow> (string \<rightharpoonup> entry)" where
  "expiry_scan now [] m = m"
| "expiry_scan now (k # ks) m =
     (case m k of
        None \<Rightarrow> expiry_scan now ks m
      | Some e \<Rightarrow>
          if \<not> IsZero (ExpiresAt e) \<and> After now (ExpiresAt e)
          then expiry_scan now ks (m(k := None))
          else expiry_scan now ks m)"

definition expiry_tick :: "time \<Rightarrow> string list \<Rightarrow> DB \<Rightarrow> DB" where
  "expiry_tick now ks db = db\<lparr>data := expiry_scan now ks (data db)\<rparr>"

section \<open>Library functions\<close>

text \<open>
  The functions of Go's standard library that depend on the Unicode tables, on floating
  point or on the release of the library are parameters of the model:
  \<open>strings.ToUpper\<close>, \<open>strings.TrimSpace\<close>, \<open>strings.Fields\<close>,
  \<open>time.ParseDuration\<close> (\<open>None\<close> when it returns an error) and the number of bytes
  of the line that \<open>json.Marshal\<close> writes for a record.
\<close>

record golib =
  ToUpper :: "string \<Rightarrow> string"
  TrimSpace :: "string \<Rightarrow> string"
  Fields :: "string \<Rightarrow> string list"
  ParseDuration :: "string \<Rightarrow> duration option"
  MarshalLen :: "aof_rec \<Rightarrow> nat"

text \<open>
  \<open>utf8_size s\<close> is the length of the well-formed UTF-8 sequence at the head of \<open>s\<close>,
  0 when there is none (\<open>utf8.DecodeRuneInString\<close> then returns \<open>RuneError\<close> with
  size 1).
\<close>

definition byte_in :: "nat \<Rightarrow> nat \<Rightarrow> char \<Rightarrow> bool" where
  "byte_in lo hi c = (lo \<le> of_char c \<and> (of_char c :: nat) \<le> hi)"

fun utf8_size :: "string \<Rightarrow> nat" where
  "utf8_size [] = 0"
| "utf8_size (c # cs) =
     (let b = (of_char c :: nat) in
      if b < 0x80 then 1
      else if b < 0xC2 then 0
      else if b \<le> 0xDF then
        (case cs of
           c1 # _ \<Rightarrow> if byte_in 0x80 0xBF c1 then 2 else 0
         | _ \<Rightarrow> 0)
      else if b \<le> 0xEF then
        (case cs of
           c1 # c2 # _ \<Rightarrow>
             if byte_in (if b = 0xE0 then 0xA0 else 0x80) (if b = 0xED then 0x9F else 0xBF) c1
                \<and> byte_in 0x80 0xBF c2
             then 3 else 0
         | _ \<Rightarrow> 0)
      else if b \<le> 0xF4 then
        (case cs of
           c1 # c2 # c3 # _ \<Rightarrow>
             if byte_in (if b = 0xF0 then 0x90 else 0x80) (if b = 0xF4 then 0x8F else 0xBF) c1
                \<and> byte_in 0x80 0xBF c2 \<and> byte_in 0x80 0xBF c3
             then 4 else 0
         | _ \<Rightarrow> 0)
      else 0)"

text \<open>
  \<open>json_text s\<close> is the Go string that \<open>json.Unmarshal\<close> reads back from the JSON
  string that \<open>json.Marshal\<close> writes for \<open>s\<close>: the encoder replaces every byte that
  does not start a well-formed UTF-8 sequence by U+FFFD (the bytes EF BF BD), and every
  escape it writes is undone by the decoder.
\<close>

definition replacement_char :: string where
  "replacement_char = [CHR 0xEF, CHR 0xBF, CHR 0xBD]"

fun json_text :: "string \<Rightarrow> string" where
  "json_text [] = []"
| "json_text (c # cs) =
     (if utf8_size (c # cs) = 0 then replacement_char @ json_text cs
      else take (utf8_size (c # cs)) (c # cs) @ json_text (drop (utf8_size (c # cs) - 1) cs))"

definition unmarshal :: "aof_rec \<Rightarrow> aof_rec" where
  "unmarshal r =
     \<lparr>rec_cmd = json_text (rec_cmd r), rec_key = json_text (rec_key r),
      rec_value = map_option json_text (rec_value r), rec_ttl_ms = rec_ttl_ms r\<rparr>"

text \<open>\<open>fmt.Sprintf("%v", x)\<close> for \<open>x\<close> a string of the map, or nil when the key is missing.\<close>

definition sprint_v :: "string option \<Rightarrow> string" where
  "sprint_v x = (case x of None \<Rightarrow> ''<nil>'' | Some s \<Rightarrow> s)"

text \<open>\<open>%d\<close> of a number that is not negative.\<close>

function fmt_d :: "nat \<Rightarrow> string" where
  "fmt_d n = (if n < 10 then [''0123456789'' ! n]
              else fmt_d (n div 10) @ [''0123456789'' ! (n mod 10)])"
  by pat_completeness auto
termination
  by (relation "measure id") auto

declare fmt_d.simps [simp del]

definition CRLF :: string where
  "CRLF = [CHR 0x0D, CHR 0x0A]"

section \<open>Replay of the append-only file\<close>

text \<open>
  \<open>bufio.Scanner\<close> with its default buffer yields the lines of the file in order and
  stops, without a token, at the first line of \<open>64 * 1024\<close> bytes or more;
  \<open>loadAOF\<close> does not look at \<open>scanner.Err()\<close>.
\<close>

definition line_len :: "golib \<Rightarrow> aof_line \<Rightarrow> nat" where
  "line_len lib l = (case l of Unparsable s \<Rightarrow> length s | JsonLine r \<Rightarrow> MarshalLen lib r)"

definition scanner_lines :: "golib \<Rightarrow> aof_line list \<Rightarrow> aof_line list" where
  "scanner_lines lib ls = takeWhile (\<lambda>l. line_len lib l < 65536) ls"

text \<open>
  The body of the loop of \<open>loadAOF\<close> for a line that parses to \<open>r\<close>, read when the
  clock shows \<open>now\<close>. \<open>ttl_ms\<close> is at most an int64 divided by \<open>10 ^ 6\<close>, so the float64
  holds it exactly and the product with \<open>time.Millisecond\<close> stays in int64.
\<close>

definition replay_rec ::
  "golib \<Rightarrow> time \<Rightarrow> aof_rec \<Rightarrow> (string \<rightharpoonup> entry) \<Rightarrow> (string \<rightharpoonup> entry)" where
  "replay_rec lib now r m =
     (let c = ToUpper lib (sprint_v (Some (rec_cmd r)));
          k = sprint_v (Some (rec_key r))
      in if c = ''SET'' then
           (let val = Some (sprint_v (rec_value r));
                ttl = (case rec_ttl_ms r of
                         Some ms \<Rightarrow> if ms > 0 then ms * Millisecond else 0
                       | None \<Rightarrow> 0);
                m1 = m(k \<mapsto> \<lparr>Value = val, ExpiresAt = 0\<rparr>)
            in if ttl > 0 then m1(k \<mapsto> \<lparr>Value = val, ExpiresAt = Add now ttl\<rparr>) else m1)
         else if c = ''DEL'' then m(k := None)
         else m)"

fun replay ::
  "golib \<Rightarrow> (nat \<Rightarrow> time) \<Rightarrow> nat \<Rightarrow> aof_line list \<Rightarrow> (string \<rightharpoonup> entry) \<Rightarrow> (string \<rightharpoonup> entry)" where
  "replay lib clock i [] m = m"
| "replay lib clock i (Unparsable s # ls) m = replay lib clock (Suc i) ls m"
| "replay lib clock i (JsonLine r # ls) m =
     replay lib clock (Suc i) ls (replay_rec lib (clock i) (unmarshal r) m)"

text \<open>
  \<open>loadAOF\<close>: \<open>seek\<close> is the error of \<open>Seek\<close>, if any; \<open>clock i\<close> is the time when
  line \<open>i\<close> is replayed.
\<close>

definition loadAOF :: "golib \<Rightarrow> string option \<Rightarrow> (nat \<Rightarrow> time) \<Rightarrow> DB \<Rightarrow> string option \<times> DB" where
  "loadAOF lib seek clock db =
     (case seek of
        Some e \<Rightarrow> (Some e, db)
      | None \<Rightarrow>
          (None, db\<lparr>data := replay lib clock 0 (scanner_lines lib (aof db)) (data db)\<rparr>))"

text \<open>
  \<open>NewDB\<close>: \<open>opened\<close> is the error of \<open>os.OpenFile\<close> or the lines the file holds.
  The reaper it starts is the step \<open>expiry_tick\<close>.
\<close>

definition NewDB ::
  "golib \<Rightarrow> string + aof_line list \<Rightarrow> string option \<Rightarrow> (nat \<Rightarrow> time) \<Rightarrow> string + DB" where
  "NewDB lib opened seek clock =
     (case opened of
        Inl e \<Rightarrow> Inl e
      | Inr f \<Rightarrow>
          (case loadAOF lib seek clock \<lparr>data = Map.empty, aof = f\<rparr> of
             (Some e, db) \<Rightarrow> Inl e
           | (None, db) \<Rightarrow> Inr db))"

section \<open>Snapshot\<close>

record snap_entry =
  snap_value :: string
  snap_expiresAt :: int

text \<open>
  The loop of \<open>SaveSnapshot\<close> builds the map \<open>tmp\<close>; \<open>ks\<close> is the order of
  \<open>range db.data\<close>. The function returns the error of \<open>os.WriteFile\<close> and the object
  handed to \<open>json.MarshalIndent\<close>, which cannot fail on strings and int64.
\<close>

fun snapshot_scan ::
  "string list \<Rightarrow> (string \<rightharpoonup> entry) \<Rightarrow> (string \<rightharpoonup> snap_entry) \<Rightarrow> (string \<rightharpoonup> snap_entry)" where
  "snapshot_scan [] m tmp = tmp"
| "snapshot_scan (k # ks) m tmp =
     (case m k of
        None \<Rightarrow> snapshot_scan ks m tmp
      | Some e \<Rightarrow>
          snapshot_scan ks m
            (tmp(k \<mapsto> \<lparr>snap_value = string_of_bytes (Value e),
                        snap_expiresAt = UnixNano (ExpiresAt e)\<rparr>)))"

definition SaveSnapshot ::
  "string list \<Rightarrow> string option \<Rightarrow> DB \<Rightarrow> string option \<times> (string \<rightharpoonup> snap_entry)" where
  "SaveSnapshot ks wr db = (wr, snapshot_scan ks (data db) Map.empty)"

section \<open>The protocol handler\<close>

text \<open>
  What one command meets outside the store: the clock, the answers of the file system to
  its appends, the order of \<open>range db.data\<close> and the error of \<open>os.WriteFile\<close>.
\<close>

record cmd_env =
  env_now :: time
  env_aof :: "nat \<Rightarrow> aof_io"
  env_range :: "string list"
  env_save :: "string option"

definition splitArgs :: "golib \<Rightarrow> string \<Rightarrow> string list" where
  "splitArgs lib line = Fields lib line"

text \<open>
  The body of the loop of \<open>handleConn\<close> from \<open>len(args) == 0\<close> on: the reply written to
  the connection and the store afterwards.
\<close>

definition handle_args :: "golib \<Rightarrow> cmd_env \<Rightarrow> string list \<Rightarrow> DB \<Rightarrow> string \<times> DB" where
  "handle_args lib env args db =
     (case args of
        [] \<Rightarrow> (''-ERR empty command'' @ CRLF, db)
      | a0 # _ \<Rightarrow>
          (let c = ToUpper lib a0 in
           if c = ''PING'' then (''+PONG'' @ CRLF, db)
           else if c = ''SET'' then
             (if length args < 3 then (''-ERR wrong number of args for SET'' @ CRLF, db)
              else
                (let ttl = (if length args \<ge> 5 \<and> ToUpper lib (args ! 3) = ''PX''
                            then (case ParseDuration lib (args ! 4 @ ''ms'') of
                                    Some ms \<Rightarrow> ms
                                  | None \<Rightarrow> 0)
                            else 0)
                 in case Set (env_now env) (env_aof env 0) (args ! 1) (Some (args ! 2)) ttl db of
                      (Some err, db') \<Rightarrow> (''-ERR '' @ err @ CRLF, db')
                    | (None, db') \<Rightarrow> (''+OK'' @ CRLF, db')))
           else if c = ''GET'' then
             (if length args \<noteq> 2 then (''-ERR wrong number of args for GET'' @ CRLF, db)
              else
                (case Get (env_now env) (args ! 1) db of
                   ((v, True), db') \<Rightarrow>
                     (''$'' @ fmt_d (length (string_of_bytes v)) @ CRLF
                        @ string_of_bytes v @ CRLF, db')
                 | ((v, False), db') \<Rightarrow> (''$-1'' @ CRLF, db')))
           else if c = ''DEL'' then
             (if length args < 2 then (''-ERR wrong number of args for DEL'' @ CRLF, db)
              else
                (case Del (env_aof env) (tl args) db of
                   (removed, db') \<Rightarrow> ('':'' @ fmt_d removed @ CRLF, db')))
           else if c = ''SAVE'' then
             (case fst (SaveSnapshot (env_range env) (env_save env) db) of
                Some err \<Rightarrow> (''-ERR '' @ err @ CRLF, db)
              | None \<Rightarrow> (''+OK'' @ CRLF, db))
           else (''-ERR unknown command'' @ CRLF, db)))"

text \<open>
  \<open>handleConn\<close> on one connection: each element is what \<open>ReadString\<close> returns (a line,
  or an error, end of stream and timeout included) with the environment of the command.
  The result is the list of replies written and the store at the end. The end of the list
  is the end of the stream.
\<close>

datatype conn_read = ReadLine string | ReadErr

fun handleConn :: "golib \<Rightarrow> (conn_read \<times> cmd_env) list \<Rightarrow> DB \<Rightarrow> string list \<times> DB" where
  "handleConn lib [] db = ([], db)"
| "handleConn lib ((ReadErr, env) # rest) db = ([], db)"
| "handleConn lib ((ReadLine l, env) # rest) db =
     (let line = TrimSpace lib l in
      if line = [] then handleConn lib rest db
      else
        (case handle_args lib env (splitArgs lib line) db of
           (reply, db') \<Rightarrow>
             (case handleConn lib rest db' of
                (replies, db'') \<Rightarrow> (reply # replies, db''))))"

section \<open>Sequences of operations\<close>

datatype op = OpSet string bytes duration | OpDel "string list"

fun apply_op :: "cmd_env \<times> op \<Rightarrow> DB \<Rightarrow> DB" where
  "apply_op (env, OpSet k v ttl) db = snd (Set (env_now env) (env_aof env 0) k v ttl db)"
| "apply_op (env, OpDel ks) db = snd (Del (env_aof env) ks db)"

definition apply_ops :: "(cmd_env \<times> op) list \<Rightarrow> DB \<Rightarrow> DB" where
  "apply_ops ops db = fold apply_op ops db"

section \<open>An instance of the library\<close>

text \<open>
  For the examples: the library functions as they behave on strings of ASCII bytes.
  \<open>parse_ms\<close> stands for \<open>time.ParseDuration\<close> on a string of digits followed by
  \<open>ms\<close> and rejects every other string (Go accepts more forms, which no example uses);
  \<open>plain_len\<close> is the length of the marshalled line when no byte needs an escape.
\<close>

definition ascii_upper :: "char \<Rightarrow> char" where
  "ascii_upper c =
     (case map_of (zip ''abcdefghijklmnopqrstuvwxyz'' ''ABCDEFGHIJKLMNOPQRSTUVWXYZ'') c of
        Some u \<Rightarrow> u
      | None \<Rightarrow> c)"

definition ascii_space :: "char \<Rightarrow> bool" where
  "ascii_space c = (c \<in> set [CHR 0x20, CHR 0x09, CHR 0x0A, CHR 0x0B, CHR 0x0C, CHR 0x0D])"

fun ascii_fields :: "string \<Rightarrow> string \<Rightarrow> string list" where
  "ascii_fields cur [] = (if cur = [] then [] else [cur])"
| "ascii_fields cur (c # cs) =
     (if ascii_space c then (if cur = [] then ascii_fields [] cs else cur # ascii_fields [] cs)
      else ascii_fields (cur @ [c]) cs)"

definition ascii_trim :: "string \<Rightarrow> string" where
  "ascii_trim s = rev (dropWhile ascii_space (rev (dropWhile ascii_space s)))"

fun decimal :: "nat \<Rightarrow> string \<Rightarrow> nat option" where
  "decimal acc [] = Some acc"
| "decimal acc (c # cs) =
     (if byte_in 0x30 0x39 c then decimal (10 * acc + (of_char c - 48)) cs else None)"

definition parse_ms :: "string \<Rightarrow> duration option" where
  "parse_ms s =
     (let n = length s - 2 in
      if 2 < length s \<and> drop n s = ''ms''
      then map_option (\<lambda>v. int v * Millisecond) (decimal 0 (take n s))
      else None)"

definition plain_len :: "aof_rec \<Rightarrow> nat" where
  "plain_len r =
     7 + (length (rec_cmd r) + 2) + 7 + (length (rec_key r) + 2)
     + (case rec_ttl_ms r of None \<Rightarrow> 0 | Some ms \<Rightarrow> 10 + length (fmt_d (nat ms)))
     + (case rec_value r of None \<Rightarrow> 0 | Some v \<Rightarrow> 9 + (length v + 2)) + 1"

definition example_lib :: golib where
  "example_lib =
     \<lparr>ToUpper = map ascii_upper, TrimSpace = ascii_trim, Fields = ascii_fields [],
      ParseDuration = parse_ms, MarshalLen = plain_len\<rparr>"

text \<open>
  The same instance with one more duration: \<open>time.ParseDuration("1h2ms")\<close> is one
  hour and two milliseconds.
\<close>

definition units_lib :: golib where
  "units_lib =
     example_lib\<lparr>ParseDuration := (ParseDuration example_lib)(''1h2ms'' := Some 3600002000000)\<rparr>"

definition quiet_env :: "time \<Rightarrow> cmd_env" where
  "quiet_env now = \<lparr>env_now = now, env_aof = (\<lambda>i. IoOk), env_range = [], env_save = None\<rparr>"

definition fixed_clock :: "time \<Rightarrow> nat \<Rightarrow> time" where
  "fixed_clock t i = t"

definition failing_env :: "time \<Rightarrow> string \<Rightarrow> cmd_env" where
  "failing_env now m =
     \<lparr>env_now = now, env_aof = (\<lambda>i. WriteErr m), env_range = [], env_save = None\<rparr>"

definition first_fails :: "string \<Rightarrow> nat \<Rightarrow> aof_io" where
  "first_fails m j = (if j = 0 then WriteErr m else IoOk)"

definition foo_DB :: DB where
  "foo_DB = \<lparr>data = [''foo'' \<mapsto> \<lparr>Value = Some ''bar'', ExpiresAt = 0\<rparr>], aof = []\<rparr>"

definition mixed_DB :: DB where
  "mixed_DB =
     \<lparr>data = [''old'' \<mapsto> \<lparr>Value = Some ''a'', ExpiresAt = 100\<rparr>,
              ''new'' \<mapsto> \<lparr>Value = Some ''b'', ExpiresAt = 9000\<rparr>,
              ''keep'' \<mapsto> \<lparr>Value = Some ''c'', ExpiresAt = 0\<rparr>],
      aof = []\<rparr>"

definition example_ops :: "(cmd_env \<times> op) list" where
  "example_ops =
     [(quiet_env 1000, OpSet ''k'' (Some ''v'') 2500000),
      (quiet_env 1100, OpSet ''j'' (Some ''w'') 0),
      (quiet_env 1200, OpDel [''j'', ''x''])]"

section \<open>Notions used to state the properties\<close>

text \<open>
  The keys that one \<open>Del\<close> removes from the map \<open>m\<close>, in the order of the call: the
  keys of the call that are in the map, each at its first occurrence.
\<close>

definition first_occurrences :: "string list \<Rightarrow> string list" where
  "first_occurrences ks = rev (remdups (rev ks))"

definition removed_keys :: "string list \<Rightarrow> (string \<rightharpoonup> entry) \<Rightarrow> string list" where
  "removed_keys ks m = filter (\<lambda>k. k \<in> dom m) (first_occurrences ks)"

definition del_line :: "string \<Rightarrow> aof_line" where
  "del_line k =
     JsonLine \<lparr>rec_cmd = ''DEL'', rec_key = k, rec_value = None, rec_ttl_ms = None\<rparr>"

definition write_failed :: "aof_io \<Rightarrow> bool" where
  "write_failed io = (case io of WriteErr m \<Rightarrow> True | _ \<Rightarrow> False)"

text \<open>
  The keys for which one \<open>Del\<close> leaves a line in the log: the key at position \<open>j\<close> of
  the call, when it is in the map, is not named earlier in the call, and the write of
  append \<open>j\<close> did not fail.
\<close>

definition logged_removals ::
  "(nat \<Rightarrow> aof_io) \<Rightarrow> string list \<Rightarrow> (string \<rightharpoonup> entry) \<Rightarrow> string list" where
  "logged_removals io ks m =
     map snd (filter (\<lambda>(j, k). k \<in> dom m \<and> k \<notin> set (take j ks) \<and> \<not> write_failed (io j))
                     (enumerate 0 ks))"

text \<open>
  An operation whose keys and value come back from the JSON log as they went in: the
  value is not the nil slice, and keys and value are well-formed UTF-8.
\<close>

fun op_text_ok :: "op \<Rightarrow> bool" where
  "op_text_ok (OpSet k v ttl) =
     (v \<noteq> None \<and> json_text k = k \<and> json_text (string_of_bytes v) = string_of_bytes v)"
| "op_text_ok (OpDel ks) = list_all (\<lambda>k. json_text k = k) ks"

definition values_of :: "(string \<rightharpoonup> entry) \<Rightarrow> (string \<rightharpoonup> bytes)" where
  "values_of m = (\<lambda>k. map_option Value (m k))"

text \<open>The replay of the log of \<open>db\<close> from the empty map has the keys and values of \<open>db\<close>.\<close>

definition mirrors :: "golib \<Rightarrow> (nat \<Rightarrow> time) \<Rightarrow> DB \<Rightarrow> bool" where
  "mirrors lib clock db =
     (values_of (replay lib clock 0 (aof db) Map.empty) = values_of (data db))"

section \<open>Auxiliary facts\<close>

lemma appendAOF_data: "data (snd (appendAOF io c k v ttl db)) = data db"
  by (simp add: appendAOF_def Let_def split: aof_io.splits)

lemma appendAOF_DEL_aof:
  "\<not> write_failed io \<Longrightarrow>
   aof (snd (appendAOF io ''DEL'' k None 0 db)) = aof db @ [del_line k]"
  by (simp add: appendAOF_def write_failed_def del_line_def split: aof_io.splits)

lemma remdups_snoc: "remdups (xs @ [k]) = filter (\<lambda>x. x \<noteq> k) (remdups xs) @ [k]"
  by (induction xs) auto

lemma first_occurrences_Cons:
  "first_occurrences (k # ks) = k # filter (\<lambda>x. x \<noteq> k) (first_occurrences ks)"
  by (simp add: first_occurrences_def remdups_snoc rev_filter)

lemma first_occurrences_Nil: "first_occurrences [] = []"
  by (simp add: first_occurrences_def)

lemma removed_keys_Nil: "removed_keys [] m = []"
  by (simp add: removed_keys_def first_occurrences_Nil)

lemma removed_keys_absent: "m k = None \<Longrightarrow> removed_keys (k # ks) m = removed_keys ks m"
proof -
  assume a: "m k = None"
  have "filter (\<lambda>x. x \<in> dom m) (filter (\<lambda>x. x \<noteq> k) xs) = filter (\<lambda>x. x \<in> dom m) xs" for xs
    using a by (induction xs) auto
  with a show ?thesis
    by (simp add: removed_keys_def first_occurrences_Cons domIff del: filter_filter)
qed

lemma removed_keys_present:
  "m k \<noteq> None \<Longrightarrow> removed_keys (k # ks) m = k # removed_keys ks (m(k := None))"
proof -
  assume a: "m k \<noteq> None"
  have "filter (\<lambda>x. x \<in> dom m) (filter (\<lambda>x. x \<noteq> k) xs) = filter (\<lambda>x. x \<in> dom (m(k := None))) xs" for xs
    by (induction xs) auto
  with a show ?thesis
    by (simp add: removed_keys_def first_occurrences_Cons domIff del: filter_filter)
qed

lemma Del_loop_count:
  "fst (Del_loop io i ks d db) = d + length (removed_keys ks (data db))"
proof (induction ks arbitrary: i d db)
  case Nil
  then show ?case by (simp add: removed_keys_Nil)
next
  case (Cons k ks)
  show ?case
  proof (cases "data db k = None")
    case True
    then show ?thesis
      by (simp add: Cons.IH removed_keys_absent)
  next
    case False
    then show ?thesis
      by (simp add: Cons.IH appendAOF_data removed_keys_present fun_upd_def)
  qed
qed

lemma Del_loop_aof:
  "(\<And>j. \<not> write_failed (io j)) \<Longrightarrow>
   aof (snd (Del_loop io i ks d db)) = aof db @ map del_line (removed_keys ks (data db))"
proof (induction ks arbitrary: i d db)
  case Nil
  then show ?case by (simp add: removed_keys_Nil)
next
  case (Cons k ks)
  show ?case
  proof (cases "data db k = None")
    case True
    then show ?thesis
      using Cons.prems by (simp add: Cons.IH removed_keys_absent)
  next
    case False
    then show ?thesis
      using Cons.prems
      by (simp add: Cons.IH appendAOF_data appendAOF_DEL_aof removed_keys_present fun_upd_def)
  qed
qed

lemma appendAOF_DEL_aof_any:
  "aof (snd (appendAOF io ''DEL'' k None 0 db))
     = aof db @ (if write_failed io then [] else [del_line k])"
  by (simp add: appendAOF_def write_failed_def del_line_def split: aof_io.splits)

lemma Del_loop_aof_any:
  "aof (snd (Del_loop io i ks d db))
     = aof db @ map (del_line \<circ> snd)
         (filter (\<lambda>(j, k). k \<in> dom (data db) \<and> k \<notin> set (take (j - i) ks)
                            \<and> \<not> write_failed (io j))
                 (enumerate i ks))"
proof (induction ks arbitrary: i d db)
  case Nil
  then show ?case by simp
next
  case (Cons k ks)
  have shift: "filter (\<lambda>(j, x). x \<in> dom m \<and> x \<notin> set (take (j - i) (k # ks))
                            \<and> \<not> write_failed (io j)) (enumerate (Suc i) ks)
             = filter (\<lambda>(j, x). x \<in> dom (m(k := None)) \<and> x \<notin> set (take (j - Suc i) ks)
                            \<and> \<not> write_failed (io j)) (enumerate (Suc i) ks)" for m
  proof (rule filter_cong [OF refl])
    fix p assume mem: "p \<in> set (enumerate (Suc i) ks)"
    obtain j x where p: "p = (j, x)"
      by (cases p) auto
    from mem have j: "Suc i \<le> j"
      by (simp add: p in_set_enumerate_eq)
    from j have "j - i = Suc (j - Suc i)" by simp
    then show "(case p of (j, x) \<Rightarrow> x \<in> dom m \<and> x \<notin> set (take (j - i) (k # ks))
                            \<and> \<not> write_failed (io j))
             = (case p of (j, x) \<Rightarrow> x \<in> dom (m(k := None)) \<and> x \<notin> set (take (j - Suc i) ks)
                            \<and> \<not> write_failed (io j))"
      by (auto simp add: p)
  qed
  show ?case
  proof (cases "data db k = None")
    case True
    then have same: "(data db)(k := None) = data db" by (auto simp add: fun_eq_iff)
    from True show ?thesis
      using shift [of "data db"] by (simp add: Cons.IH same domIff)
  next
    case False
    then show ?thesis
      using shift [of "data db"]
      by (simp add: Cons.IH appendAOF_data appendAOF_DEL_aof_any domIff fun_upd_def)
  qed
qed

lemma Del_aof_any:
  "aof (snd (Del io ks db)) = aof db @ map del_line (logged_removals io ks (data db))"
  by (simp add: Del_def Del_loop_aof_any logged_removals_def)

lemma Del_loop_data:
  "data (snd (Del_loop io i ks d db)) = (\<lambda>x. if x \<in> set ks then None else data db x)"
proof (induction ks arbitrary: i d db)
  case Nil
  then show ?case by simp
next
  case (Cons k ks)
  show ?case
    by (cases "data db k = None") (auto simp add: Cons.IH appendAOF_data)
qed

lemma expiry_scan_at:
  "expiry_scan now ks m k =
     (if k \<in> set ks
      then (case m k of
              None \<Rightarrow> None
            | Some e \<Rightarrow> if ExpiresAt e \<noteq> 0 \<and> ExpiresAt e < now then None else Some e)
      else m k)"
  by (induction ks arbitrary: m)
     (auto simp add: IsZero_def After_def split: option.splits)

lemma fmt_d_small [simp]:
  "fmt_d (Suc 0) = ''1''" "fmt_d 1 = ''1''" "fmt_d 2 = ''2''" "fmt_d 3 = ''3''"
  "fmt_d (Suc (Suc (Suc 0))) = ''3''"
  by (simp_all add: fmt_d.simps)

lemma example_upper [simp]:
  "ToUpper example_lib ''DEL'' = ''DEL''" "ToUpper example_lib ''SET'' = ''SET''"
  "ToUpper example_lib ''GET'' = ''GET''" "ToUpper example_lib ''PX'' = ''PX''"
  "ToUpper example_lib ''FOO'' = ''FOO''" "ToUpper example_lib ''get'' = ''GET''"
  by (simp_all add: example_lib_def ascii_upper_def)

lemma Del_count: "fst (Del io ks db) = length (removed_keys ks (data db))"
  by (simp add: Del_def Del_loop_count)

lemma replay_append:
  "replay lib clock i (xs @ ys) m = replay lib clock (i + length xs) ys (replay lib clock i xs m)"
  by (induction lib clock i xs m rule: replay.induct) simp_all

lemma json_text_commands: "json_text ''SET'' = ''SET''" "json_text ''DEL'' = ''DEL''"
  by (simp_all add: byte_in_def)

lemma values_of_upd: "values_of (m(k \<mapsto> e)) = (values_of m)(k \<mapsto> Value e)"
  by (auto simp add: values_of_def)

lemma values_of_del: "values_of (m(k := None)) = (values_of m)(k := None)"
  by (auto simp add: values_of_def)

lemma replay_rec_SET:
  assumes "ToUpper lib ''SET'' = ''SET''" and "json_text k = k" and "json_text v = v"
  shows "replay_rec lib t
           (unmarshal \<lparr>rec_cmd = ''SET'', rec_key = k, rec_value = Some v, rec_ttl_ms = x\<rparr>) m
         = m(k \<mapsto> \<lparr>Value = Some v,
                   ExpiresAt = (case x of
                                  None \<Rightarrow> 0
                                | Some ms \<Rightarrow> if 0 < ms then t + ms * Millisecond else 0)\<rparr>)"
  using assms
  by (auto simp add: replay_rec_def unmarshal_def sprint_v_def json_text_commands Let_def
        Add_def Millisecond_def split: option.splits)

lemma replay_rec_DEL:
  assumes "ToUpper lib ''DEL'' = ''DEL''" and "ToUpper lib ''SET'' = ''SET''" and "json_text k = k"
  shows "replay_rec lib t
           (unmarshal \<lparr>rec_cmd = ''DEL'', rec_key = k, rec_value = None, rec_ttl_ms = None\<rparr>) m
         = m(k := None)"
  using assms
  by (simp add: replay_rec_def unmarshal_def sprint_v_def json_text_commands Let_def)

lemma mirrors_Set:
  assumes up: "ToUpper lib ''SET'' = ''SET''" and k: "json_text k = k" and v: "json_text v = v"
    and m: "mirrors lib clock db"
  shows "mirrors lib clock (snd (Set now IoOk k (Some v) ttl db))"
  using m
  by (simp add: mirrors_def Set_def appendAOF_def Let_def replay_append string_of_bytes_def
        replay_rec_SET [OF up k v] values_of_upd)

lemma mirrors_Del_loop:
  assumes up: "ToUpper lib ''DEL'' = ''DEL''" "ToUpper lib ''SET'' = ''SET''"
    and io: "\<And>j. io j = IoOk"
  shows "list_all (\<lambda>k. json_text k = k) ks \<Longrightarrow> mirrors lib clock db \<Longrightarrow>
         mirrors lib clock (snd (Del_loop io i ks d db))"
proof (induction ks arbitrary: i d db)
  case Nil
  then show ?case by simp
next
  case (Cons k ks)
  from Cons.prems have k: "json_text k = k" and ks: "list_all (\<lambda>k. json_text k = k) ks"
    by simp_all
  show ?case
  proof (cases "data db k = None")
    case True
    with Cons.IH [OF ks Cons.prems(2)] show ?thesis by simp
  next
    case False
    have "mirrors lib clock (snd (appendAOF (io i) ''DEL'' k None 0 (db\<lparr>data := (data db)(k := None)\<rparr>)))"
      using Cons.prems(2)
      by (simp add: mirrors_def appendAOF_def io Let_def replay_append
            replay_rec_DEL [OF up k] values_of_del)
    from Cons.IH [OF ks this] False show ?thesis by simp
  qed
qed

lemma mirrors_apply_op:
  assumes up: "ToUpper lib ''DEL'' = ''DEL''" "ToUpper lib ''SET'' = ''SET''"
    and ok: "op_text_ok op" and io: "\<And>j. env_aof env j = IoOk"
    and m: "mirrors lib clock db"
  shows "mirrors lib clock (apply_op (env, op) db)"
proof (cases op)
  case (OpSet k v ttl)
  with ok obtain s where s: "v = Some s" "json_text k = k" "json_text s = s"
    by (auto simp add: string_of_bytes_def)
  with OpSet show ?thesis
    using mirrors_Set [OF up(2) s(2) s(3) m] by (simp add: io)
next
  case (OpDel ks)
  with ok show ?thesis
    using mirrors_Del_loop [OF up io _ m, of ks] by (simp add: Del_def)
qed

lemma mirrors_apply_ops:
  assumes up: "ToUpper lib ''DEL'' = ''DEL''" "ToUpper lib ''SET'' = ''SET''"
  shows "\<forall>(env, op) \<in> set ops. op_text_ok op \<and> (\<forall>i. env_aof env i = IoOk) \<Longrightarrow>
         mirrors lib clock db \<Longrightarrow> mirrors lib clock (apply_ops ops db)"
proof (induction ops arbitrary: db)
  case Nil
  then show ?case by (simp add: apply_ops_def)
next
  case (Cons a ops)
  obtain env op where a: "a = (env, op)" by (cases a)
  from Cons.prems(1) a have ok: "op_text_ok op" and io: "\<And>j. env_aof env j = IoOk"
    and rest: "\<forall>(env, op) \<in> set ops. op_text_ok op \<and> (\<forall>i. env_aof env i = IoOk)"
    by auto
  have "mirrors lib clock (apply_op a db)"
    unfolding a by (rule mirrors_apply_op [OF up ok io Cons.prems(2)])
  from Cons.IH [OF rest this] show ?case by (simp add: apply_ops_def)
qed

lemma scanner_lines_all:
  "\<forall>l \<in> set ls. line_len lib l < 65536 \<Longrightarrow> scanner_lines lib ls = ls"
  by (simp add: scanner_lines_def)


section \<open>Reads and expiry\<close>

text \<open>
  C1, as stated (not-found at every time from \<open>t0 + T\<close> on), fails at the instant
  \<open>t0 + T\<close> itself: \<open>Get\<close> tests \<open>time.Now().After(e.ExpiresAt)\<close>, which is strict.
  An entry set at time 1000 with a ttl of 500 is still returned at time 1500.
\<close>

theorem Get_at_deadline_counterexample:
  "fst (Get 1500 ''k'' (snd (Set 1000 IoOk ''k'' (Some ''v'') 500 empty_DB)))
     = (Some ''v'', True)"
  by (simp add: Get_def Set_def appendAOF_def empty_DB_def Add_def IsZero_def After_def)

text \<open>
  C1, amended: for an entry set with a ttl \<open>T > 0\<close> at a time \<open>t0\<close> of the clock (not
  before Go's zero time), \<open>Get\<close> returns not-found at every time strictly after
  \<open>t0 + T\<close>, whether or not the reaper has removed the entry, and at the instant
  \<open>t0 + T\<close> itself it still returns the value; and a read never returns an entry whose
  \<open>ExpiresAt\<close> is set and strictly before the time of the read.
\<close>

theorem Get_hides_expired:
  "(0 \<le> t0 \<and> 0 < T \<and> t0 + T < t \<longrightarrow>
      fst (Get t k (snd (Set t0 io k v T db))) = (None, False))
   \<and> (0 < T \<longrightarrow> fst (Get (t0 + T) k (snd (Set t0 io k v T db))) = (v, True))
   \<and> (fst (Get t k db) = (b, True) \<longrightarrow>
        (\<exists>e. data db k = Some e \<and> Value e = b \<and> (ExpiresAt e = 0 \<or> t \<le> ExpiresAt e)))"
  by (auto simp add: Get_def Set_def appendAOF_data Add_def IsZero_def After_def
       split: option.splits if_splits)

theorem Get_hides_expired_witness:
  "(0::int) \<le> 1000 \<and> (0::int) < 500 \<and> (1000::int) + 500 < 1501
   \<and> fst (Get 1501 ''k'' (snd (Set 1000 IoOk ''k'' (Some ''v'') 500 empty_DB))) = (None, False)
   \<and> fst (Get (1000 + 500) ''k'' (snd (Set 1000 IoOk ''k'' (Some ''v'') 500 empty_DB)))
       = (Some ''v'', True)
   \<and> fst (Get 1200 ''k'' (snd (Set 1000 IoOk ''k'' (Some ''v'') 500 empty_DB)))
       = (Some ''v'', True)
   \<and> (\<exists>e. data (snd (Set 1000 IoOk ''k'' (Some ''v'') 500 empty_DB)) ''k'' = Some e
         \<and> Value e = Some ''v'' \<and> (ExpiresAt e = 0 \<or> 1200 \<le> ExpiresAt e))"
proof -
  let ?db = "snd (Set 1000 IoOk ''k'' (Some ''v'') 500 empty_DB)"
  have g: "fst (Get 1200 ''k'' ?db) = (Some ''v'', True)"
    by (simp add: Get_def Set_def appendAOF_def empty_DB_def Add_def IsZero_def After_def)
  from Get_hides_expired [of 1000 500 1501 "''k''" IoOk "Some ''v''" empty_DB]
  have a: "fst (Get 1501 ''k'' ?db) = (None, False)"
    and a': "fst (Get (1000 + 500) ''k'' ?db) = (Some ''v'', True)"
    by simp_all
  from Get_hides_expired [of 1000 500 1200 "''k''" IoOk "Some ''v''" ?db "Some ''v''"] g
  have b: "\<exists>e. data ?db ''k'' = Some e
         \<and> Value e = Some ''v'' \<and> (ExpiresAt e = 0 \<or> 1200 \<le> ExpiresAt e)"
    by blast
  from a a' b g show ?thesis by simp
qed

text \<open>
  C10: \<open>Get\<close> leaves the whole store as it was, map and log, also when the entry it
  finds has expired; so does the \<open>GET\<close> command, whatever its arguments.
\<close>

theorem Get_leaves_store:
  "snd (Get now k db) = db
   \<and> (ToUpper lib a0 = ''GET'' \<longrightarrow> snd (handle_args lib env (a0 # args) db) = db)"
  by (auto simp add: Get_def handle_args_def Let_def
        split: option.splits bool.splits prod.splits)

theorem Get_leaves_store_witness:
  "ToUpper example_lib ''get'' = ''GET''
   \<and> fst (Get 2000 ''k'' (snd (Set 1000 IoOk ''k'' (Some ''v'') 500 empty_DB))) = (None, False)
   \<and> snd (Get 2000 ''k'' (snd (Set 1000 IoOk ''k'' (Some ''v'') 500 empty_DB)))
       = snd (Set 1000 IoOk ''k'' (Some ''v'') 500 empty_DB)
   \<and> snd (handle_args example_lib (quiet_env 2000) [''get'', ''k'']
            (snd (Set 1000 IoOk ''k'' (Some ''v'') 500 empty_DB)))
       = snd (Set 1000 IoOk ''k'' (Some ''v'') 500 empty_DB)"
proof -
  let ?db = "snd (Set 1000 IoOk ''k'' (Some ''v'') 500 empty_DB)"
  have e: "fst (Get 2000 ''k'' ?db) = (None, False)"
    by (simp add: Get_def Set_def appendAOF_def empty_DB_def Add_def IsZero_def After_def)
  from Get_leaves_store [of 2000 "''k''" ?db example_lib "''get''" "quiet_env 2000" "[''k'']"] e
  show ?thesis by simp
qed

text \<open>
  C9: one tick of the reaper, whatever the order in which it visits the keys of the map,
  removes exactly the entries whose \<open>ExpiresAt\<close> is set and before the time of the scan,
  and leaves every other entry, and the log, as they were.
\<close>

theorem expiry_tick_exact:
  assumes "set ks = dom (data db)"
  shows "data (expiry_tick now ks db) k =
           (case data db k of
              None \<Rightarrow> None
            | Some e \<Rightarrow> if ExpiresAt e \<noteq> 0 \<and> ExpiresAt e < now then None else Some e)
         \<and> aof (expiry_tick now ks db) = aof db"
  using assms by (auto simp add: expiry_tick_def expiry_scan_at split: option.splits)

theorem expiry_tick_exact_witness:
  "set [''keep'', ''old'', ''new''] = dom (data mixed_DB)
   \<and> data (expiry_tick 5000 [''keep'', ''old'', ''new''] mixed_DB) ''old'' = None
   \<and> data (expiry_tick 5000 [''keep'', ''old'', ''new''] mixed_DB) ''new''
       = Some \<lparr>Value = Some ''b'', ExpiresAt = 9000\<rparr>
   \<and> data (expiry_tick 5000 [''keep'', ''old'', ''new''] mixed_DB) ''keep''
       = Some \<lparr>Value = Some ''c'', ExpiresAt = 0\<rparr>
   \<and> aof (expiry_tick 5000 [''keep'', ''old'', ''new''] mixed_DB) = aof mixed_DB"
proof -
  have h: "set [''keep'', ''old'', ''new''] = dom (data mixed_DB)"
    by (auto simp add: mixed_DB_def)
  have d: "data mixed_DB ''old'' = Some \<lparr>Value = Some ''a'', ExpiresAt = 100\<rparr>"
    "data mixed_DB ''new'' = Some \<lparr>Value = Some ''b'', ExpiresAt = 9000\<rparr>"
    "data mixed_DB ''keep'' = Some \<lparr>Value = Some ''c'', ExpiresAt = 0\<rparr>"
    by (simp_all add: mixed_DB_def)
  from expiry_tick_exact [OF h, of 5000 "''old''"] expiry_tick_exact [OF h, of 5000 "''new''"]
    expiry_tick_exact [OF h, of 5000 "''keep''"] h
  show ?thesis
    by (simp add: d)
qed

section \<open>Set and Delete\<close>

text \<open>
  C5: \<open>Set\<close> stores the entry (expiry \<open>now + ttl\<close> when \<open>ttl > 0\<close>, the zero time
  otherwise) before the append, and whatever the append answers the map holds the new
  entry afterwards; the call returns an error exactly when the write or the sync failed.
\<close>

theorem Set_applies_before_append:
  "data (snd (Set now io k v ttl db)) =
     (data db)(k \<mapsto> \<lparr>Value = v, ExpiresAt = (if ttl > 0 then now + ttl else 0)\<rparr>)
   \<and> fst (Set now io k v ttl db) =
       (case io of IoOk \<Rightarrow> None | WriteErr m \<Rightarrow> Some m | SyncErr m \<Rightarrow> Some m)"
  by (simp add: Set_def appendAOF_def Let_def Add_def AOF_SYNC_def split: aof_io.splits)

theorem Set_applies_before_append_witness:
  "data (snd (Set 1000 (WriteErr ''disk full'') ''k'' (Some ''v'') 500 empty_DB)) ''k''
     = Some \<lparr>Value = Some ''v'', ExpiresAt = 1500\<rparr>
   \<and> fst (Set 1000 (WriteErr ''disk full'') ''k'' (Some ''v'') 500 empty_DB)
     = Some ''disk full''"
  using Set_applies_before_append
    [of 1000 "WriteErr ''disk full''" "''k''" "Some ''v''" 500 empty_DB]
  by simp

text \<open>
  C6: \<open>Del\<close> of a key that is not in the map returns 0 and leaves the store as it was;
  once a \<open>Del\<close> has named a key, a later \<open>Del\<close> of that key returns 0 and changes
  nothing, and no \<open>Del\<close> brings an absent key back; a \<open>Del\<close> that names a key of
  the map twice returns 1, which the \<open>DEL\<close> command replies as \<open>:1\<close>.
\<close>

theorem Del_idempotent:
  "(data db k = None \<longrightarrow> Del io [k] db = (0, db))
   \<and> (k \<in> set ks \<longrightarrow> Del io2 [k] (snd (Del io ks db)) = (0, snd (Del io ks db)))
   \<and> (data db k = None \<longrightarrow> data (snd (Del io ks db)) k = None)
   \<and> (data db k \<noteq> None \<longrightarrow>
        fst (Del io [k, k] db) = 1
        \<and> (ToUpper lib a0 = ''DEL'' \<longrightarrow>
             fst (handle_args lib env [a0, k, k] db) = '':1'' @ CRLF))"
proof (intro conjI impI)
  assume "data db k = None"
  then show "Del io [k] db = (0, db)"
    by (simp add: Del_def)
next
  assume "k \<in> set ks"
  then show "Del io2 [k] (snd (Del io ks db)) = (0, snd (Del io ks db))"
    by (simp add: Del_def Del_loop_data)
next
  assume "data db k = None"
  then show "data (snd (Del io ks db)) k = None"
    by (simp add: Del_def Del_loop_data)
next
  assume "data db k \<noteq> None"
  then show "fst (Del io [k, k] db) = 1"
    by (simp add: Del_def appendAOF_data)
next
  assume "data db k \<noteq> None" and "ToUpper lib a0 = ''DEL''"
  then show "fst (handle_args lib env [a0, k, k] db) = '':1'' @ CRLF"
    by (simp add: handle_args_def Del_def appendAOF_data)
qed

theorem Del_idempotent_witness:
  "data empty_DB ''foo'' = None \<and> Del (env_aof (quiet_env 1)) [''foo''] empty_DB = (0, empty_DB)
   \<and> ''foo'' \<in> set [''foo''] \<and> data foo_DB ''foo'' \<noteq> None
   \<and> ToUpper example_lib ''DEL'' = ''DEL''
   \<and> fst (Del (env_aof (quiet_env 1)) [''foo''] foo_DB) = 1
   \<and> fst (Del (env_aof (quiet_env 2)) [''foo''] (snd (Del (env_aof (quiet_env 1)) [''foo''] foo_DB)))
       = 0
   \<and> fst (Del (env_aof (quiet_env 1)) [''foo'', ''foo''] foo_DB) = 1
   \<and> fst (handle_args example_lib (quiet_env 1) [''DEL'', ''foo'', ''foo''] foo_DB)
       = '':1'' @ CRLF"
proof -
  have a: "data empty_DB ''foo'' = None"
    by (simp add: empty_DB_def)
  have b: "data foo_DB ''foo'' \<noteq> None"
    by (simp add: foo_DB_def)
  have c: "fst (Del (env_aof (quiet_env 1)) [''foo''] foo_DB) = 1"
    by (simp add: Del_def foo_DB_def appendAOF_def quiet_env_def)
  from Del_idempotent [of empty_DB "''foo''" "env_aof (quiet_env 1)" "[''foo'']"
      "env_aof (quiet_env 2)" example_lib "''DEL''" "quiet_env 1"] a
  have d: "Del (env_aof (quiet_env 1)) [''foo''] empty_DB = (0, empty_DB)"
    by simp
  from Del_idempotent [of foo_DB "''foo''" "env_aof (quiet_env 1)" "[''foo'']"
      "env_aof (quiet_env 2)" example_lib "''DEL''" "quiet_env 1"] b
  have e: "fst (Del (env_aof (quiet_env 2)) [''foo'']
                 (snd (Del (env_aof (quiet_env 1)) [''foo''] foo_DB))) = 0
         \<and> fst (Del (env_aof (quiet_env 1)) [''foo'', ''foo''] foo_DB) = 1
         \<and> fst (handle_args example_lib (quiet_env 1) [''DEL'', ''foo'', ''foo''] foo_DB)
             = '':1'' @ CRLF"
    by simp
  from a b c d e show ?thesis by simp
qed

section \<open>Failures of the log\<close>

text \<open>
  C4, as stated, fails for \<open>DEL\<close>: \<open>Del\<close> drops the result of \<open>appendAOF\<close> and
  returns only a count, so a \<open>DEL\<close> whose append fails still replies with the count.
  With \<open>foo\<close> in the store and a failing write, \<open>DEL foo\<close> replies \<open>:1\<close>.
\<close>

theorem DEL_hides_append_failure_counterexample:
  "fst (handle_args example_lib (failing_env 1000 ''disk full'') [''DEL'', ''foo''] foo_DB)
     = '':1'' @ CRLF"
  by (simp add: handle_args_def Del_def failing_env_def foo_DB_def appendAOF_def)

text \<open>
  C4, amended: every key that a \<open>Del\<close> removes gets an append of its own: the log
  grows by one \<open>DEL\<close> line for each removed key whose own write did not fail, in the
  order of the removals and whatever the other appends answer (so by one line per removed
  key when no write fails), and the count returned is the number of removed keys. A
  failure of the write or of the sync during a \<open>SET\<close>, with or without further
  arguments, is replied to the client as an error; during a \<open>DEL\<close> it is dropped, and
  the reply is the count of removed keys whatever the appends answer.
\<close>

theorem removals_logged_SET_reports:
  "aof (snd (Del io ks db)) = aof db @ map del_line (logged_removals io ks (data db))
   \<and> ((\<forall>j. \<not> write_failed (io j)) \<longrightarrow>
        aof (snd (Del io ks db)) = aof db @ map del_line (removed_keys ks (data db)))
   \<and> fst (Del io ks db) = length (removed_keys ks (data db))
   \<and> (ToUpper lib a0 = ''SET'' \<and> env_aof env 0 \<in> {WriteErr m, SyncErr m} \<longrightarrow>
        fst (handle_args lib env (a0 # k # v # rest) db) = ''-ERR '' @ m @ CRLF)
   \<and> (ToUpper lib a0 = ''DEL'' \<longrightarrow>
        fst (handle_args lib env (a0 # k # ks) db)
          = '':'' @ fmt_d (length (removed_keys (k # ks) (data db))) @ CRLF)"
proof (intro conjI impI)
  show "aof (snd (Del io ks db)) = aof db @ map del_line (logged_removals io ks (data db))"
    by (rule Del_aof_any)
next
  assume "\<forall>j. \<not> write_failed (io j)"
  then show "aof (snd (Del io ks db)) = aof db @ map del_line (removed_keys ks (data db))"
    by (simp add: Del_def Del_loop_aof)
next
  show "fst (Del io ks db) = length (removed_keys ks (data db))"
    by (rule Del_count)
next
  assume "ToUpper lib a0 = ''SET'' \<and> env_aof env 0 \<in> {WriteErr m, SyncErr m}"
  then show "fst (handle_args lib env (a0 # k # v # rest) db) = ''-ERR '' @ m @ CRLF"
    by (auto simp add: handle_args_def Set_def appendAOF_def AOF_SYNC_def Let_def
          split: option.splits)
next
  assume "ToUpper lib a0 = ''DEL''"
  then show "fst (handle_args lib env (a0 # k # ks) db)
          = '':'' @ fmt_d (length (removed_keys (k # ks) (data db))) @ CRLF"
    by (simp add: handle_args_def case_prod_beta Del_count)
qed

theorem removals_logged_SET_reports_witness:
  "(\<forall>j. \<not> write_failed (env_aof (quiet_env 1) j))
   \<and> ToUpper example_lib ''SET'' = ''SET''
   \<and> env_aof (failing_env 1 ''disk full'') 0 \<in> {WriteErr ''disk full'', SyncErr ''disk full''}
   \<and> ToUpper example_lib ''DEL'' = ''DEL''
   \<and> aof (snd (Del (first_fails ''disk full'') [''old'', ''new''] mixed_DB)) = [del_line ''new'']
   \<and> fst (Del (first_fails ''disk full'') [''old'', ''new''] mixed_DB) = 2
   \<and> aof (snd (Del (env_aof (quiet_env 1)) [''foo'', ''x'', ''foo''] foo_DB)) = [del_line ''foo'']
   \<and> fst (Del (env_aof (quiet_env 1)) [''foo'', ''x'', ''foo''] foo_DB) = 1
   \<and> fst (handle_args example_lib (failing_env 1 ''disk full'')
             [''SET'', ''k'', ''v'', ''PX'', ''100''] foo_DB)
       = ''-ERR '' @ ''disk full'' @ CRLF
   \<and> fst (handle_args example_lib (failing_env 1 ''disk full'') [''DEL'', ''foo'', ''x''] foo_DB)
       = '':1'' @ CRLF"
proof -
  have h1: "\<forall>j. \<not> write_failed (env_aof (quiet_env 1) j)"
    by (simp add: quiet_env_def write_failed_def)
  have h2: "env_aof (failing_env 1 ''disk full'') 0
              \<in> {WriteErr ''disk full'', SyncErr ''disk full''}"
    by (simp add: failing_env_def)
  have h3: "ToUpper example_lib ''SET'' = ''SET''" and h4: "ToUpper example_lib ''DEL'' = ''DEL''"
    by simp_all
  have r1: "removed_keys [''foo'', ''x'', ''foo''] (data foo_DB) = [''foo'']"
    by (simp add: removed_keys_def first_occurrences_def foo_DB_def)
  have r2: "removed_keys [''foo'', ''x''] (data foo_DB) = [''foo'']"
    by (simp add: removed_keys_def first_occurrences_def foo_DB_def)
  have r3: "removed_keys [''old'', ''new''] (data mixed_DB) = [''old'', ''new'']"
    by (simp add: removed_keys_def first_occurrences_def mixed_DB_def)
  have r4: "logged_removals (first_fails ''disk full'') [''old'', ''new''] (data mixed_DB)
              = [''new'']"
    by (simp add: logged_removals_def first_fails_def write_failed_def mixed_DB_def
          enumerate_eq_zip upt_rec)
  have a0: "aof foo_DB = []" and a1: "aof mixed_DB = []"
    by (simp_all add: foo_DB_def mixed_DB_def)
  note inst = removals_logged_SET_reports [of "env_aof (quiet_env 1)" "[''foo'', ''x'', ''foo'']"
      foo_DB example_lib "''SET''" "failing_env 1 ''disk full''" "''disk full''" "''k''" "''v''"
      "[''PX'', ''100'']"]
  note inst2 = removals_logged_SET_reports [of "first_fails ''disk full''" "[''old'', ''new'']"
      mixed_DB example_lib "''SET''" "failing_env 1 ''disk full''" "''disk full''" "''k''" "''v''"
      "[]"]
  from inst2
  have "aof (snd (Del (first_fails ''disk full'') [''old'', ''new''] mixed_DB))
          = aof mixed_DB @ map del_line
              (logged_removals (first_fails ''disk full'') [''old'', ''new''] (data mixed_DB))"
    and "fst (Del (first_fails ''disk full'') [''old'', ''new''] mixed_DB)
          = length (removed_keys [''old'', ''new''] (data mixed_DB))"
    by blast+
  then have c0: "aof (snd (Del (first_fails ''disk full'') [''old'', ''new''] mixed_DB))
                   = [del_line ''new'']"
    and c0': "fst (Del (first_fails ''disk full'') [''old'', ''new''] mixed_DB) = 2"
    by (simp_all add: r3 r4 a1)
  from inst h1
  have "aof (snd (Del (env_aof (quiet_env 1)) [''foo'', ''x'', ''foo''] foo_DB))
          = aof foo_DB @ map del_line (removed_keys [''foo'', ''x'', ''foo''] (data foo_DB))"
    by blast
  then have c1: "aof (snd (Del (env_aof (quiet_env 1)) [''foo'', ''x'', ''foo''] foo_DB))
                   = [del_line ''foo'']"
    by (simp add: r1 a0)
  from inst
  have "fst (Del (env_aof (quiet_env 1)) [''foo'', ''x'', ''foo''] foo_DB)
          = length (removed_keys [''foo'', ''x'', ''foo''] (data foo_DB))"
    by blast
  then have c2: "fst (Del (env_aof (quiet_env 1)) [''foo'', ''x'', ''foo''] foo_DB) = 1"
    by (simp add: r1)
  from inst h2 h3
  have c3: "fst (handle_args example_lib (failing_env 1 ''disk full'')
                   [''SET'', ''k'', ''v'', ''PX'', ''100''] foo_DB)
       = ''-ERR '' @ ''disk full'' @ CRLF"
    by blast
  from removals_logged_SET_reports [of "env_aof (quiet_env 1)" "[''x'']" foo_DB example_lib
      "''DEL''" "failing_env 1 ''disk full''" "''disk full''" "''foo''" "''v''" "[]"] h4
  have "fst (handle_args example_lib (failing_env 1 ''disk full'') [''DEL'', ''foo'', ''x''] foo_DB)
       = '':'' @ fmt_d (length (removed_keys [''foo'', ''x''] (data foo_DB))) @ CRLF"
    by blast
  then have c4: "fst (handle_args example_lib (failing_env 1 ''disk full'')
                        [''DEL'', ''foo'', ''x''] foo_DB) = '':1'' @ CRLF"
    by (simp add: r2)
  from h1 h2 h3 h4 c0 c0' c1 c2 c3 c4 show ?thesis by blast
qed

section \<open>The protocol\<close>

text \<open>
  C7, as stated, fails on a \<open>PX\<close> value that is not a count of milliseconds and that
  \<open>time.ParseDuration\<close> accepts once \<open>ms\<close> is appended: \<open>SET k v PX 1h2\<close> at time
  1000 stores the entry with an expiry of one hour and two milliseconds.
\<close>

theorem SET_PX_1h2_counterexample:
  "data (snd (handle_args units_lib (quiet_env 1000)
                [''SET'', ''k'', ''v'', ''PX'', ''1h2''] empty_DB)) ''k''
     = Some \<lparr>Value = Some ''v'', ExpiresAt = 3600002001000\<rparr>"
  by (simp add: handle_args_def units_lib_def example_lib_def ascii_upper_def quiet_env_def
        Set_def appendAOF_def empty_DB_def Add_def)

text \<open>
  C7, amended: a \<open>SET\<close> whose \<open>PX\<close> value \<open>time.ParseDuration\<close> rejects, with
  \<open>ms\<close> appended, is handled exactly as the same \<open>SET\<close> without \<open>PX\<close>: the entry is
  stored with no expiry, and the reply is \<open>+OK\<close> when the append to the log succeeds. A
  \<open>PX\<close> value that the parser accepts, a count of milliseconds or not, sets the expiry
  to the time of the command plus the parsed duration when that is positive, and no
  expiry otherwise.
\<close>

theorem SET_PX_follows_parser:
  assumes "ToUpper lib a0 = ''SET''" and "ToUpper lib px = ''PX''"
  shows "(ParseDuration lib (x @ ''ms'') = None \<longrightarrow>
            handle_args lib env (a0 # k # v # px # x # extra) db
              = handle_args lib env [a0, k, v] db
            \<and> data (snd (handle_args lib env (a0 # k # v # px # x # extra) db)) k
                = Some \<lparr>Value = Some v, ExpiresAt = 0\<rparr>
            \<and> (env_aof env 0 = IoOk \<longrightarrow>
                 fst (handle_args lib env (a0 # k # v # px # x # extra) db) = ''+OK'' @ CRLF))
       \<and> (ParseDuration lib (x @ ''ms'') = Some d \<longrightarrow>
            data (snd (handle_args lib env (a0 # k # v # px # x # extra) db)) k
              = Some \<lparr>Value = Some v, ExpiresAt = (if 0 < d then env_now env + d else 0)\<rparr>)"
  using assms
  by (auto simp add: handle_args_def Set_def appendAOF_def AOF_SYNC_def Let_def Add_def
        split: aof_io.splits)

theorem SET_PX_follows_parser_witness:
  "ToUpper example_lib ''SET'' = ''SET'' \<and> ToUpper example_lib ''PX'' = ''PX''
   \<and> ParseDuration example_lib (''abc'' @ ''ms'') = None
   \<and> ParseDuration example_lib (''100'' @ ''ms'') = Some 100000000
   \<and> env_aof (quiet_env 1000) 0 = IoOk
   \<and> data (snd (handle_args example_lib (quiet_env 1000)
                   [''SET'', ''k'', ''v'', ''PX'', ''abc''] empty_DB)) ''k''
        = Some \<lparr>Value = Some ''v'', ExpiresAt = 0\<rparr>
   \<and> fst (handle_args example_lib (quiet_env 1000)
             [''SET'', ''k'', ''v'', ''PX'', ''abc''] empty_DB) = ''+OK'' @ CRLF
   \<and> data (snd (handle_args example_lib (quiet_env 1000)
                   [''SET'', ''k'', ''v'', ''PX'', ''100''] empty_DB)) ''k''
        = Some \<lparr>Value = Some ''v'', ExpiresAt = 100001000\<rparr>"
proof -
  have h1: "ToUpper example_lib ''SET'' = ''SET''" and h2: "ToUpper example_lib ''PX'' = ''PX''"
    by simp_all
  have h3: "ParseDuration example_lib (''abc'' @ ''ms'') = None"
    by (simp add: example_lib_def parse_ms_def byte_in_def)
  have h3': "ParseDuration example_lib (''100'' @ ''ms'') = Some 100000000"
    by (simp add: example_lib_def parse_ms_def byte_in_def Millisecond_def)
  have h4: "env_aof (quiet_env 1000) 0 = IoOk"
    by (simp add: quiet_env_def)
  from SET_PX_follows_parser [OF h1 h2, of "''abc''" "quiet_env 1000" "''k''" "''v''" "[]"
      empty_DB] h3 h4
  have c: "data (snd (handle_args example_lib (quiet_env 1000)
                   [''SET'', ''k'', ''v'', ''PX'', ''abc''] empty_DB)) ''k''
        = Some \<lparr>Value = Some ''v'', ExpiresAt = 0\<rparr>
   \<and> fst (handle_args example_lib (quiet_env 1000)
             [''SET'', ''k'', ''v'', ''PX'', ''abc''] empty_DB) = ''+OK'' @ CRLF"
    by blast
  from SET_PX_follows_parser [OF h1 h2, of "''100''" "quiet_env 1000" "''k''" "''v''" "[]"
      empty_DB 100000000] h3'
  have "data (snd (handle_args example_lib (quiet_env 1000)
                   [''SET'', ''k'', ''v'', ''PX'', ''100''] empty_DB)) ''k''
        = Some \<lparr>Value = Some ''v'',
                ExpiresAt = (if (0::int) < 100000000
                             then env_now (quiet_env 1000) + 100000000 else 0)\<rparr>"
    by blast
  then have c': "data (snd (handle_args example_lib (quiet_env 1000)
                   [''SET'', ''k'', ''v'', ''PX'', ''100''] empty_DB)) ''k''
        = Some \<lparr>Value = Some ''v'', ExpiresAt = 100001000\<rparr>"
    by (simp add: quiet_env_def)
  from h1 h2 h3 h3' h4 c c' show ?thesis by blast
qed

text \<open>
  C8: a line whose first word is none of the five commands is replied with
  \<open>-ERR unknown command\<close>, and the connection goes on from the same store: the
  replies that follow and the final store are those of the rest of the input.
\<close>

theorem unknown_command_keeps_connection:
  assumes "TrimSpace lib l \<noteq> []" and "splitArgs lib (TrimSpace lib l) = a0 # args"
    and "ToUpper lib a0 \<notin> {''PING'', ''SET'', ''GET'', ''DEL'', ''SAVE''}"
  shows "handleConn lib ((ReadLine l, env) # rest) db
           = ((''-ERR unknown command'' @ CRLF) # fst (handleConn lib rest db),
              snd (handleConn lib rest db))"
  using assms by (simp add: handle_args_def split: prod.splits)

theorem unknown_command_keeps_connection_witness:
  "TrimSpace example_lib (''FOO x'' @ CRLF) \<noteq> []
   \<and> splitArgs example_lib (TrimSpace example_lib (''FOO x'' @ CRLF)) = [''FOO'', ''x'']
   \<and> ToUpper example_lib ''FOO'' \<notin> {''PING'', ''SET'', ''GET'', ''DEL'', ''SAVE''}
   \<and> handleConn example_lib
        [(ReadLine (''FOO x'' @ CRLF), quiet_env 1), (ReadLine (''GET foo'' @ CRLF), quiet_env 2)]
        foo_DB
      = ([''-ERR unknown command'' @ CRLF, ''$3'' @ CRLF @ ''bar'' @ CRLF], foo_DB)"
proof -
  have t: "TrimSpace example_lib (''FOO x'' @ CRLF) = ''FOO x''"
    by (simp add: example_lib_def ascii_trim_def ascii_space_def CRLF_def)
  have h1: "TrimSpace example_lib (''FOO x'' @ CRLF) \<noteq> []"
    unfolding t by simp
  have h2: "splitArgs example_lib (TrimSpace example_lib (''FOO x'' @ CRLF)) = [''FOO'', ''x'']"
    unfolding t by (simp add: splitArgs_def example_lib_def ascii_space_def)
  have h3: "ToUpper example_lib ''FOO'' \<notin> {''PING'', ''SET'', ''GET'', ''DEL'', ''SAVE''}"
    by simp
  have t2: "TrimSpace example_lib (''GET foo'' @ CRLF) = ''GET foo''"
    by (simp add: example_lib_def ascii_trim_def ascii_space_def CRLF_def)
  have s2: "splitArgs example_lib ''GET foo'' = [''GET'', ''foo'']"
    by (simp add: splitArgs_def example_lib_def ascii_space_def)
  have r: "handleConn example_lib [(ReadLine (''GET foo'' @ CRLF), quiet_env 2)] foo_DB
             = ([''$3'' @ CRLF @ ''bar'' @ CRLF], foo_DB)"
    by (simp add: t2 [simplified] s2 handle_args_def Get_def foo_DB_def IsZero_def
          string_of_bytes_def)
  from unknown_command_keeps_connection [OF h1 h2 h3, of "quiet_env 1"
      "[(ReadLine (''GET foo'' @ CRLF), quiet_env 2)]" foo_DB]
  have c: "handleConn example_lib
        [(ReadLine (''FOO x'' @ CRLF), quiet_env 1), (ReadLine (''GET foo'' @ CRLF), quiet_env 2)]
        foo_DB
      = ([''-ERR unknown command'' @ CRLF, ''$3'' @ CRLF @ ''bar'' @ CRLF], foo_DB)"
    unfolding r by simp
  from h1 h2 h3 c show ?thesis by blast
qed

section \<open>Snapshot\<close>

text \<open>
  C3: the snapshot holds, for every key, the value and \<open>ExpiresAt.UnixNano()\<close>. For an
  entry with no expiry \<open>SaveSnapshot\<close> makes the same call on the zero time, without the
  \<open>IsZero\<close> test that \<open>Get\<close> and the reaper make, and the int64 arithmetic of
  \<open>UnixNano\<close> wraps around: the number written for a key set without ttl is
  \<open>-6795364578871345152\<close>, not 0.
\<close>

theorem SaveSnapshot_no_expiry_nanos:
  "snd (SaveSnapshot [''k''] None (snd (Set 1000 IoOk ''k'' (Some ''v'') 0 empty_DB))) ''k''
     = Some \<lparr>snap_value = ''v'', snap_expiresAt = - 6795364578871345152\<rparr>"
  by (simp add: SaveSnapshot_def Set_def appendAOF_def empty_DB_def string_of_bytes_def
        UnixNano_def wrap_int64_def)

section \<open>Replay of the log\<close>

text \<open>
  C2, as stated (for every sequence of operations), fails on a value that is not text:
  the log holds values as JSON strings, and a byte that is not UTF-8 comes back as
  U+FFFD. After \<open>SET k v\<close> with \<open>v\<close> the single byte FF, the store holds that byte and
  the store rebuilt from the log holds the three bytes EF BF BD.
\<close>

theorem replay_binary_value_counterexample:
  "data (apply_ops [(quiet_env 1000, OpSet ''k'' (Some [CHR 0xFF]) 0)] empty_DB) ''k''
     = Some \<lparr>Value = Some [CHR 0xFF], ExpiresAt = 0\<rparr>
   \<and> NewDB example_lib
        (Inr (aof (apply_ops [(quiet_env 1000, OpSet ''k'' (Some [CHR 0xFF]) 0)] empty_DB)))
        None (fixed_clock 2000)
     = Inr \<lparr>data = [''k'' \<mapsto> \<lparr>Value = Some [CHR 0xEF, CHR 0xBF, CHR 0xBD], ExpiresAt = 0\<rparr>],
            aof = [JsonLine \<lparr>rec_cmd = ''SET'', rec_key = ''k'', rec_value = Some [CHR 0xFF],
                             rec_ttl_ms = None\<rparr>]\<rparr>"
proof -
  have log: "aof (apply_ops [(quiet_env 1000, OpSet ''k'' (Some [CHR 0xFF]) 0)] empty_DB)
      = [JsonLine \<lparr>rec_cmd = ''SET'', rec_key = ''k'', rec_value = Some [CHR 0xFF],
                    rec_ttl_ms = None\<rparr>]"
    by (simp add: apply_ops_def quiet_env_def Set_def appendAOF_def empty_DB_def
          string_of_bytes_def)
  have direct: "data (apply_ops [(quiet_env 1000, OpSet ''k'' (Some [CHR 0xFF]) 0)] empty_DB) ''k''
     = Some \<lparr>Value = Some [CHR 0xFF], ExpiresAt = 0\<rparr>"
    by (simp add: apply_ops_def quiet_env_def Set_def appendAOF_def empty_DB_def)
  have jk: "json_text ''k'' = ''k''" and jv: "json_text [CHR 0xFF] = [CHR 0xEF, CHR 0xBF, CHR 0xBD]"
    by (simp_all add: byte_in_def replacement_char_def)
  have "NewDB example_lib
        (Inr [JsonLine \<lparr>rec_cmd = ''SET'', rec_key = ''k'', rec_value = Some [CHR 0xFF],
                         rec_ttl_ms = None\<rparr>])
        None (fixed_clock 2000)
     = Inr \<lparr>data = [''k'' \<mapsto> \<lparr>Value = Some [CHR 0xEF, CHR 0xBF, CHR 0xBD], ExpiresAt = 0\<rparr>],
            aof = [JsonLine \<lparr>rec_cmd = ''SET'', rec_key = ''k'', rec_value = Some [CHR 0xFF],
                             rec_ttl_ms = None\<rparr>]\<rparr>"
    by (simp add: NewDB_def loadAOF_def scanner_lines_def line_len_def example_lib_def
          plain_len_def replay_rec_def unmarshal_def sprint_v_def json_text_commands jk jv
          ascii_upper_def replacement_char_def)
  with log direct show ?thesis by simp
qed

text \<open>
  C2, amended: for every sequence of \<open>Set\<close> and \<open>Del\<close> operations whose appends all
  succeed, whose values are not nil, whose keys and values are well-formed UTF-8 and
  whose log lines are shorter than the 64 KiB buffer of the scanner, starting the store
  on the log that the sequence wrote from the empty store succeeds and yields the same
  keys with the same values as the sequence applied directly. Each replayed \<open>SET\<close>
  takes its expiry from the clock of the replay: the time of the replay plus the ttl
  rounded down to whole milliseconds, and no expiry when the ttl was under a millisecond.
  (\<open>ToUpper\<close> is assumed to leave the words \<open>SET\<close> and \<open>DEL\<close> as they are.)
\<close>

theorem replay_rebuilds_text_store:
  assumes up: "ToUpper lib ''SET'' = ''SET''" "ToUpper lib ''DEL'' = ''DEL''"
    and ok: "\<forall>(env, op) \<in> set ops. op_text_ok op \<and> (\<forall>i. env_aof env i = IoOk)"
    and fit: "\<forall>l \<in> set (aof (apply_ops ops empty_DB)). line_len lib l < 65536"
  shows "(\<exists>db. NewDB lib (Inr (aof (apply_ops ops empty_DB))) None clock = Inr db
            \<and> dom (data db) = dom (data (apply_ops ops empty_DB))
            \<and> (\<forall>k. map_option Value (data db k)
                     = map_option Value (data (apply_ops ops empty_DB) k)))
       \<and> (json_text k = k \<and> json_text v = v \<longrightarrow>
            replay lib clock i [last (aof (snd (Set now IoOk k (Some v) ttl db0)))] m
              = m(k \<mapsto> \<lparr>Value = Some v,
                        ExpiresAt = (if Millisecond \<le> ttl
                                     then clock i + (ttl div Millisecond) * Millisecond
                                     else 0)\<rparr>))"
proof (intro conjI impI)
  let ?direct = "apply_ops ops empty_DB"
  let ?m = "replay lib clock 0 (aof ?direct) Map.empty"
  have "mirrors lib clock empty_DB"
    by (simp add: mirrors_def empty_DB_def)
  then have "mirrors lib clock ?direct"
    by (rule mirrors_apply_ops [OF up(2) up(1) ok])
  then have vals: "values_of ?m = values_of (data ?direct)"
    by (simp add: mirrors_def)
  have new: "NewDB lib (Inr (aof ?direct)) None clock = Inr \<lparr>data = ?m, aof = aof ?direct\<rparr>"
    by (simp add: NewDB_def loadAOF_def scanner_lines_all [OF fit])
  have pt: "map_option Value (?m x) = map_option Value (data ?direct x)" for x
    using fun_cong [OF vals, of x] by (simp add: values_of_def)
  have "dom ?m = dom (data ?direct)"
  proof (rule set_eqI)
    fix x
    show "x \<in> dom ?m \<longleftrightarrow> x \<in> dom (data ?direct)"
      using pt [of x] by (cases "?m x"; cases "data ?direct x") (auto simp add: domIff)
  qed
  with new pt
  show "\<exists>db. NewDB lib (Inr (aof ?direct)) None clock = Inr db
            \<and> dom (data db) = dom (data ?direct)
            \<and> (\<forall>k. map_option Value (data db k) = map_option Value (data ?direct k))"
    by simp
next
  assume t: "json_text k = k \<and> json_text v = v"
  have "0 < Millisecond" by (simp add: Millisecond_def)
  then have pos: "0 < ttl div Millisecond \<longleftrightarrow> Millisecond \<le> ttl"
    by (simp add: pos_imp_zdiv_pos_iff)
  have small: "\<not> Millisecond \<le> ttl \<Longrightarrow> 0 < ttl \<Longrightarrow> \<not> 0 < ttl div Millisecond"
    using pos by simp
  from t show "replay lib clock i [last (aof (snd (Set now IoOk k (Some v) ttl db0)))] m
              = m(k \<mapsto> \<lparr>Value = Some v,
                        ExpiresAt = (if Millisecond \<le> ttl
                                     then clock i + (ttl div Millisecond) * Millisecond
                                     else 0)\<rparr>)"
    using pos \<open>0 < Millisecond\<close>
    by (cases "0 < ttl")
       (auto simp add: Set_def appendAOF_def Let_def string_of_bytes_def
          replay_rec_SET [OF up(1)])
qed


theorem replay_rebuilds_text_store_witness:
  "ToUpper example_lib ''SET'' = ''SET'' \<and> ToUpper example_lib ''DEL'' = ''DEL''
   \<and> list_all (\<lambda>(env, op). op_text_ok op \<and> (\<forall>i. env_aof env i = IoOk)) example_ops
   \<and> list_all (\<lambda>l. line_len example_lib l < 65536) (aof (apply_ops example_ops empty_DB))
   \<and> json_text ''k'' = ''k'' \<and> json_text ''v'' = ''v''
   \<and> dom (data (apply_ops example_ops empty_DB)) = {''k''}
   \<and> (\<exists>db. NewDB example_lib (Inr (aof (apply_ops example_ops empty_DB))) None
               (fixed_clock 9000) = Inr db
          \<and> dom (data db) = {''k''}
          \<and> map_option Value (data db ''k'') = Some (Some ''v''))
   \<and> replay example_lib (fixed_clock 9000) 0
        [last (aof (snd (Set 1000 IoOk ''k'' (Some ''v'') 2500000 empty_DB)))] Map.empty
      = [''k'' \<mapsto> \<lparr>Value = Some ''v'', ExpiresAt = 2009000\<rparr>]"
proof -
  have h1: "ToUpper example_lib ''SET'' = ''SET''" and h2: "ToUpper example_lib ''DEL'' = ''DEL''"
    by simp_all
  have j: "json_text ''k'' = ''k''" "json_text ''v'' = ''v''" "json_text ''j'' = ''j''"
    "json_text ''w'' = ''w''" "json_text ''x'' = ''x''"
    by (simp_all add: byte_in_def)
  have h3: "\<forall>(env, op) \<in> set example_ops. op_text_ok op \<and> (\<forall>i. env_aof env i = IoOk)"
    by (simp add: example_ops_def quiet_env_def string_of_bytes_def j)
  have log: "aof (apply_ops example_ops empty_DB)
      = [JsonLine \<lparr>rec_cmd = ''SET'', rec_key = ''k'', rec_value = Some ''v'',
                    rec_ttl_ms = Some 2\<rparr>,
         JsonLine \<lparr>rec_cmd = ''SET'', rec_key = ''j'', rec_value = Some ''w'',
                    rec_ttl_ms = None\<rparr>,
         del_line ''j'']"
    by (simp add: example_ops_def apply_ops_def quiet_env_def Set_def Del_def appendAOF_def
          empty_DB_def string_of_bytes_def Millisecond_def del_line_def)
  have h4: "\<forall>l \<in> set (aof (apply_ops example_ops empty_DB)). line_len example_lib l < 65536"
    by (simp add: log line_len_def example_lib_def plain_len_def del_line_def)
  have direct: "data (apply_ops example_ops empty_DB)
      = [''k'' \<mapsto> \<lparr>Value = Some ''v'', ExpiresAt = 2501000\<rparr>]"
    by (rule ext)
       (simp add: example_ops_def apply_ops_def quiet_env_def Set_def Del_def appendAOF_def
          empty_DB_def Add_def)
  have d: "dom (data (apply_ops example_ops empty_DB)) = {''k''}"
    by (simp add: direct)
  note inst = replay_rebuilds_text_store [OF h1 h2 h3 h4, where clock = "fixed_clock 9000"
      and k = "''k''" and v = "''v''" and i = 0 and now = 1000 and ttl = 2500000
      and ?db0.0 = empty_DB and m = Map.empty]
  from inst obtain db where
    db: "NewDB example_lib (Inr (aof (apply_ops example_ops empty_DB))) None
           (fixed_clock 9000) = Inr db"
    and dm: "dom (data db) = dom (data (apply_ops example_ops empty_DB))"
    and vs: "\<forall>x. map_option Value (data db x)
                 = map_option Value (data (apply_ops example_ops empty_DB) x)"
    by blast
  from vs have "map_option Value (data db ''k'')
      = map_option Value (data (apply_ops example_ops empty_DB) ''k'')"
    by (rule spec)
  then have vk: "map_option Value (data db ''k'') = Some (Some ''v'')"
    by (simp add: direct)
  from db dm vk d
  have c1: "\<exists>db. NewDB example_lib (Inr (aof (apply_ops example_ops empty_DB))) None
               (fixed_clock 9000) = Inr db
          \<and> dom (data db) = {''k''}
          \<and> map_option Value (data db ''k'') = Some (Some ''v'')"
    by simp
  from inst j
  have "replay example_lib (fixed_clock 9000) 0
        [last (aof (snd (Set 1000 IoOk ''k'' (Some ''v'') 2500000 empty_DB)))] Map.empty
      = Map.empty(''k'' \<mapsto> \<lparr>Value = Some ''v'',
           ExpiresAt = (if Millisecond \<le> 2500000
                        then fixed_clock 9000 0 + (2500000 div Millisecond) * Millisecond
                        else 0)\<rparr>)"
    by blast
  then have c2: "replay example_lib (fixed_clock 9000) 0
        [last (aof (snd (Set 1000 IoOk ''k'' (Some ''v'') 2500000 empty_DB)))] Map.empty
      = [''k'' \<mapsto> \<lparr>Value = Some ''v'', ExpiresAt = 2009000\<rparr>]"
    by (simp add: Millisecond_def fixed_clock_def)
  from h3 have g3: "list_all (\<lambda>(env, op). op_text_ok op \<and> (\<forall>i. env_aof env i = IoOk)) example_ops"
    by (simp add: list_all_iff)
  from h4 have g4: "list_all (\<lambda>l. line_len example_lib l < 65536)
                      (aof (apply_ops example_ops empty_DB))"
    by (simp add: list_all_iff)
  from h1 h2 g3 g4 j d c1 c2 show ?thesis by blast
qed

end
